theory Spec2Isabelle
  imports Main "HOL-Library.Sublist"
begin

section \<open>The components and their model\<close>

text \<open>
  The repository has two React components, \<open>GenericMultiSelect\<close> and \<open>GenericSingleSelect\<close>.
  A component is modelled as a state machine. Its state is a record of the values its hooks
  hold between renders (\<open>useState\<close>, \<open>useRef\<close>, the pending timers) together with the props of
  the last render. Each handler and each effect of the source is a function of the same
  name on that record; a handler returns the state after its \<open>setState\<close> calls and the list
  of the caller's callbacks it invoked. The step functions \<open>ms_step\<close> and \<open>ss_step\<close> put them
  together the way React runs them:
  \<^item> a handler reads the state of the current render, and the component renders again
    before the next event;
  \<^item> after a render, an effect runs when a value of its dependency list differs from the
    previous render; its cleanup runs first;
  \<^item> a timer is an event of its own, and the value its callback returns is discarded.
\<close>

section \<open>Data model\<close>

text \<open>
  Both components are generic in the option type \<open>T\<close>; an option is read only through
  \<open>option[valueKey]\<close> (and its label). The option type is the type variable \<open>'o\<close>, the type of
  value keys is \<open>'k\<close>, and the read \<open>option[valueKey]\<close> is a function \<open>vk :: 'o \<Rightarrow> 'k\<close> passed
  to every operation that needs it. The comparison \<open>===\<close> on value keys is equality on \<open>'k\<close>
  (keys are strings or numbers other than NaN, and no key is null or undefined). An optional
  boolean prop (\<open>boolean | undefined\<close>) is a \<open>bool option\<close>, tested for truthiness as the code
  does. An optional callback prop is an \<open>option\<close> of an identity token: the dependency lists
  of the effects compare callbacks by identity. State that only changes how the component
  looks (\<open>isAnimating\<close>, class names) is left out.
\<close>

definition truthy :: "bool option \<Rightarrow> bool" where
  "truthy b = (b = Some True)"

text \<open>The invocations of caller-supplied callbacks, in the order they happen.\<close>

datatype ('o, 'k) call =
    OnValueChange "'k list"
  | SetAlternativeValue "'o list"
  | OnValueChangeSingle "'k option"
  | OnSearchChange string
  | OnLoadMore nat

record 'o select_props =
  options :: "'o list"
  onLoadMore :: "nat option"
  hasNextPage :: "bool option"
  isFetchingNextPage :: "bool option"
  onSearchChange :: "nat option"
  isLoading :: "bool option"

record 'o ms_props = "'o select_props" +
  defaultValue :: "'o list"
  maxCount :: int
  setAlternativeValue :: bool

text \<open>
  The list container (\<open>scrollRef.current\<close>) is a DOM element with its scroll metrics and the
  listeners registered on it. One \<open>listener\<close> stands for one pair \<open>handleScroll\<close>/\<open>handleWheel\<close>
  created by one run of the timeout callback, with the values that run captured.
\<close>

record listener =
  cap_hasNextPage :: "bool option"
  cap_isLoading :: "bool option"
  cap_onLoadMore :: nat

record metrics =
  scrollTop :: int
  scrollHeight :: int
  clientHeight :: int

record dom_node = metrics +
  listeners :: "listener list"

text \<open>What the function handed to \<open>setTimeout\<close> by the infinite scroll effect captured.\<close>

record timeout_closure =
  tc_hasNextPage :: "bool option"
  tc_isLoading :: "bool option"
  tc_onLoadMore :: "nat option"

record hook_state =
  localSearch :: string
  debouncedSearch :: string
  debounce_timer :: "string option"
  isFetchingNextPageRef :: "bool option"
  scroll_timer :: "timeout_closure option"
  node :: dom_node

record 'o ms_state = hook_state +
  props :: "'o ms_props"
  selectedOptions :: "'o list"
  isPopoverOpen :: bool

section \<open>MultiSelect: the selection handlers\<close>

text \<open>
  Each handler is the source function of the same name: it reads the state of the current
  render, returns the state after its \<open>setState\<close> calls and the callbacks it invoked.
  \<open>xs.some(p)\<close> is \<open>list_ex p xs\<close>, \<open>xs.filter(p)\<close> is \<open>filter p xs\<close>.
\<close>

definition report :: "('o \<Rightarrow> 'k) \<Rightarrow> 'o ms_state \<Rightarrow> 'o list \<Rightarrow> ('o, 'k) call list" where
  "report vk s newSelected =
     OnValueChange (map vk newSelected) #
     (if setAlternativeValue (props s) then [SetAlternativeValue newSelected] else [])"

definition toggleOption ::
  "('o \<Rightarrow> 'k) \<Rightarrow> 'o ms_state \<Rightarrow> 'o \<Rightarrow> 'o ms_state \<times> ('o, 'k) call list" where
  "toggleOption vk s opt =
     (let newSelected =
            (if list_ex (\<lambda>o'. vk o' = vk opt) (selectedOptions s)
             then filter (\<lambda>o'. vk o' \<noteq> vk opt) (selectedOptions s)
             else selectedOptions s @ [opt])
      in (s\<lparr>selectedOptions := newSelected\<rparr>, report vk s newSelected))"

definition handleClear :: "('o \<Rightarrow> 'k) \<Rightarrow> 'o ms_state \<Rightarrow> 'o ms_state \<times> ('o, 'k) call list" where
  "handleClear vk s = (s\<lparr>selectedOptions := []\<rparr>, report vk s [])"

text \<open>
  \<open>xs.slice(0, e)\<close> of JavaScript, for an integer \<open>e\<close>: a negative end counts from the end
  of the array.
\<close>

definition slice0 :: "'a list \<Rightarrow> int \<Rightarrow> 'a list" where
  "slice0 xs e = (if e < 0 then take (nat (int (length xs) + e)) xs else take (nat e) xs)"

definition clearExtraOptions ::
  "('o \<Rightarrow> 'k) \<Rightarrow> 'o ms_state \<Rightarrow> 'o ms_state \<times> ('o, 'k) call list" where
  "clearExtraOptions vk s =
     (let newSelected = slice0 (selectedOptions s) (maxCount (props s))
      in (s\<lparr>selectedOptions := newSelected\<rparr>, report vk s newSelected))"

definition toggleAll :: "('o \<Rightarrow> 'k) \<Rightarrow> 'o ms_state \<Rightarrow> 'o ms_state \<times> ('o, 'k) call list" where
  "toggleAll vk s =
     (if length (selectedOptions s) = length (options (props s))
      then handleClear vk s
      else (s\<lparr>selectedOptions := options (props s)\<rparr>, report vk s (options (props s))))"

text \<open>
  A sequence of \<open>toggleOption\<close> calls, each on the state the previous one left (the component
  re-renders between two user interactions), with everything reported on the way.
\<close>

fun toggle_all_of ::
  "('o \<Rightarrow> 'k) \<Rightarrow> 'o ms_state \<Rightarrow> 'o list \<Rightarrow> 'o ms_state \<times> ('o, 'k) call list" where
  "toggle_all_of vk s [] = (s, [])"
| "toggle_all_of vk s (opt # rest) =
     (let (s1, c1) = toggleOption vk s opt;
          (s2, c2) = toggle_all_of vk s1 rest
      in (s2, c1 @ c2))"

text \<open>The key lists handed to \<open>onValueChange\<close>, in order.\<close>

fun reported :: "('o, 'k) call list \<Rightarrow> 'k list list" where
  "reported [] = []"
| "reported (OnValueChange ks # cs) = ks # reported cs"
| "reported (c # cs) = reported cs"

subsection \<open>The specification of a toggle sequence\<close>

text \<open>
  Following the words of the specification. The toggles are numbered in the order they
  happen; \<open>earlier\<close> are the toggles before the one considered, \<open>later\<close> those after it, \<open>dv\<close>
  the default selection. A toggle of an option switches its value key on when the key is off
  at that moment: the key is not in the default selection and was toggled an even number of
  times earlier, or it is in the default selection and was toggled an odd number of times
  earlier. An option toggled on is toggled off by the next toggle of its key. The selection
  is the options of the default selection that were never toggled, followed by the options
  toggled on and not toggled off afterwards, in the order of their toggles.
\<close>

definition count_key :: "('o \<Rightarrow> 'k) \<Rightarrow> 'k \<Rightarrow> 'o list \<Rightarrow> nat" where
  "count_key vk k xs = length (filter (\<lambda>x. vk x = k) xs)"

definition toggles_on :: "('o \<Rightarrow> 'k) \<Rightarrow> 'o list \<Rightarrow> 'o list \<Rightarrow> 'o \<Rightarrow> bool" where
  "toggles_on vk dv earlier opt =
     (even (count_key vk (vk opt) earlier) \<noteq> list_ex (\<lambda>d. vk d = vk opt) dv)"

definition toggled_off_later :: "('o \<Rightarrow> 'k) \<Rightarrow> 'o list \<Rightarrow> 'o \<Rightarrow> bool" where
  "toggled_off_later vk later opt = list_ex (\<lambda>x. vk x = vk opt) later"

fun on_and_not_off :: "('o \<Rightarrow> 'k) \<Rightarrow> 'o list \<Rightarrow> 'o list \<Rightarrow> 'o list \<Rightarrow> 'o list" where
  "on_and_not_off vk dv earlier [] = []"
| "on_and_not_off vk dv earlier (opt # later) =
     (if toggles_on vk dv earlier opt \<and> \<not> toggled_off_later vk later opt then [opt] else [])
     @ on_and_not_off vk dv (earlier @ [opt]) later"

definition spec_selection :: "('o \<Rightarrow> 'k) \<Rightarrow> 'o list \<Rightarrow> 'o list \<Rightarrow> 'o list" where
  "spec_selection vk dv toggles =
     filter (\<lambda>d. \<not> list_ex (\<lambda>x. vk x = vk d) toggles) dv @ on_and_not_off vk dv [] toggles"

section \<open>Infinite scroll: the handlers on the list container\<close>

text \<open>
  \<open>handleScroll\<close> is the same text in both components. It reads \<open>hasNextPage\<close>, \<open>isLoading\<close>
  and \<open>onLoadMore\<close> from the closure of the render that scheduled its timeout, the in-flight
  flag from \<open>isFetchingNextPageRef.current\<close> (the argument \<open>fetching\<close>), and the metrics from
  the container.
\<close>

definition handleScroll :: "listener \<Rightarrow> bool option \<Rightarrow> dom_node \<Rightarrow> ('o, 'k) call list" where
  "handleScroll l fetching container =
     (if \<not> truthy (cap_hasNextPage l) \<or> truthy fetching then []
      else
        let atBottom = (scrollTop container + clientHeight container \<ge> scrollHeight container - 5)
        in if atBottom \<and> \<not> truthy (cap_isLoading l) \<and> \<not> truthy fetching
           then [OnLoadMore (cap_onLoadMore l)]
           else [])"

text \<open>
  An assignment to \<open>container.scrollTop\<close>: the browser keeps the value between 0 and the
  largest scroll offset of the element.
\<close>

definition set_scrollTop :: "dom_node \<Rightarrow> int \<Rightarrow> dom_node" where
  "set_scrollTop container v =
     container\<lparr>scrollTop := max 0 (min v (max 0 (scrollHeight container - clientHeight container)))\<rparr>"

definition ms_handleWheel ::
  "listener \<Rightarrow> bool option \<Rightarrow> dom_node \<Rightarrow> int \<Rightarrow> dom_node \<times> ('o, 'k) call list" where
  "ms_handleWheel l fetching container deltaY =
     (let newScrollTop = scrollTop container + deltaY;
          container' = set_scrollTop container newScrollTop
      in (container',
          if \<not> truthy (cap_isLoading l) then handleScroll l fetching container' else []))"

definition ss_handleWheel ::
  "listener \<Rightarrow> bool option \<Rightarrow> dom_node \<Rightarrow> int \<Rightarrow> dom_node \<times> ('o, 'k) call list" where
  "ss_handleWheel l fetching container deltaY =
     (let atBottom = (scrollTop container + clientHeight container \<ge> scrollHeight container - 5);
          atTop = (scrollTop container \<le> 5)
      in if (atBottom \<and> deltaY > 0 \<and> \<not> truthy (cap_hasNextPage l)) \<or> (atTop \<and> deltaY < 0)
         then (container, [])
         else
           let container' = set_scrollTop container (scrollTop container + deltaY)
           in (container',
               if \<not> truthy (cap_isLoading l) then handleScroll l fetching container' else []))"

text \<open>
  An event on the container runs every listener registered for it, in the order of
  registration. The event brings the metrics the layout has at that moment.
\<close>

definition with_metrics :: "dom_node \<Rightarrow> metrics \<Rightarrow> dom_node" where
  "with_metrics container m =
     container\<lparr>scrollTop := scrollTop m, scrollHeight := scrollHeight m,
               clientHeight := clientHeight m\<rparr>"

definition dispatch_scroll :: "bool option \<Rightarrow> dom_node \<Rightarrow> ('o, 'k) call list" where
  "dispatch_scroll fetching container =
     concat (map (\<lambda>l. handleScroll l fetching container) (listeners container))"

fun dispatch_wheel ::
  "(listener \<Rightarrow> bool option \<Rightarrow> dom_node \<Rightarrow> int \<Rightarrow> dom_node \<times> ('o, 'k) call list) \<Rightarrow>
   bool option \<Rightarrow> int \<Rightarrow> listener list \<Rightarrow> dom_node \<Rightarrow> dom_node \<times> ('o, 'k) call list" where
  "dispatch_wheel handleWheel fetching deltaY [] container = (container, [])"
| "dispatch_wheel handleWheel fetching deltaY (l # ls) container =
     (let (c1, k1) = handleWheel l fetching container deltaY;
          (c2, k2) = dispatch_wheel handleWheel fetching deltaY ls c1
      in (c2, k1 @ k2))"

definition empty_node :: dom_node where
  "empty_node = \<lparr>scrollTop = 0, scrollHeight = 0, clientHeight = 0, listeners = []\<rparr>"

text \<open>
  The popover primitive renders its content, and with it the list container that carries
  \<open>scrollRef\<close>, while \<open>open\<close> is true: opening mounts a new element, which has no listeners,
  and \<open>scrollRef.current\<close> is null while the popover is closed. The field \<open>node\<close> keeps the
  last element that was mounted.
\<close>

definition mount_container :: "bool \<Rightarrow> bool \<Rightarrow> dom_node \<Rightarrow> dom_node" where
  "mount_container was_open is_open container =
     (if is_open \<and> \<not> was_open then empty_node else container)"

text \<open>
  The function that the timeout callback returns: it removes the pair of listeners the
  callback added.
\<close>

definition removeEventListeners :: "listener \<Rightarrow> dom_node \<Rightarrow> dom_node" where
  "removeEventListeners l container = container\<lparr>listeners := remove1 l (listeners container)\<rparr>"

section \<open>Debounce\<close>

text \<open>
  Modelled from the spec: \<open>useDebounce\<close> of \<open>utils/index\<close>, which is not among the sources.
  The specification describes it as a timer that is cancelled and scheduled again at each
  change of the value, and that publishes the value once it fires. \<open>debounce_timer\<close> is the
  pending timer with the value it will publish, \<open>debouncedSearch\<close> the published value.
\<close>

definition useDebounce_effect ::
  "string \<Rightarrow> string \<Rightarrow> 'a hook_state_scheme \<Rightarrow> 'a hook_state_scheme" where
  "useDebounce_effect prev_value cur_value s =
     (if cur_value \<noteq> prev_value then s\<lparr>debounce_timer := Some cur_value\<rparr> else s)"

section \<open>MultiSelect: effects and events\<close>

text \<open>
  After a render React runs each effect whose dependency list differs from that of the
  previous render, in the order of declaration; \<open>prev\<close> is the state of the previous render,
  \<open>cur\<close> that of the render being committed, \<open>s\<close> the state the earlier effects left.
\<close>

definition ms_scrollRef :: "'o ms_state \<Rightarrow> dom_node option" where
  "ms_scrollRef s = (if isPopoverOpen s then Some (node s) else None)"

definition ms_effect_ref :: "'o ms_state \<Rightarrow> 'o ms_state \<Rightarrow> 'o ms_state \<Rightarrow> 'o ms_state" where
  "ms_effect_ref prev cur s =
     (if isFetchingNextPage (props cur) \<noteq> isFetchingNextPage (props prev)
      then s\<lparr>isFetchingNextPageRef := isFetchingNextPage (props cur)\<rparr>
      else s)"

definition ms_effect_reset_search :: "'o ms_state \<Rightarrow> 'o ms_state \<Rightarrow> 'o ms_state \<Rightarrow> 'o ms_state" where
  "ms_effect_reset_search prev cur s =
     (if isPopoverOpen cur \<noteq> isPopoverOpen prev
      then (if \<not> isPopoverOpen cur then s\<lparr>localSearch := ''''\<rparr> else s)
      else s)"

definition ms_effect_notify_search :: "'o ms_state \<Rightarrow> 'o ms_state \<Rightarrow> ('o, 'k) call list" where
  "ms_effect_notify_search prev cur =
     (if debouncedSearch cur \<noteq> debouncedSearch prev
         \<or> onSearchChange (props cur) \<noteq> onSearchChange (props prev)
      then (if onSearchChange (props cur) \<noteq> None then [OnSearchChange (debouncedSearch cur)] else [])
      else [])"

definition ms_closure :: "'o ms_state \<Rightarrow> timeout_closure" where
  "ms_closure s =
     \<lparr>tc_hasNextPage = hasNextPage (props s), tc_isLoading = isLoading (props s),
      tc_onLoadMore = onLoadMore (props s)\<rparr>"

text \<open>
  The infinite scroll effect. Its cleanup is \<open>clearTimeout(timeout)\<close> and nothing else, so a
  run of the effect replaces the pending timeout by a new one.
\<close>

definition ms_effect_scroll :: "'o ms_state \<Rightarrow> 'o ms_state \<Rightarrow> 'o ms_state \<Rightarrow> 'o ms_state" where
  "ms_effect_scroll prev cur s =
     (if isPopoverOpen cur \<noteq> isPopoverOpen prev
         \<or> hasNextPage (props cur) \<noteq> hasNextPage (props prev)
         \<or> isFetchingNextPage (props cur) \<noteq> isFetchingNextPage (props prev)
         \<or> onLoadMore (props cur) \<noteq> onLoadMore (props prev)
         \<or> isLoading (props cur) \<noteq> isLoading (props prev)
      then s\<lparr>scroll_timer := Some (ms_closure cur)\<rparr>
      else s)"

text \<open>
  The function handed to \<open>setTimeout\<close>. The second component of the result is what the
  function returns: nothing, or the function that removes the listener pair just added.
\<close>

definition ms_timeout_callback ::
  "timeout_closure \<Rightarrow> 'o ms_state \<Rightarrow> 'o ms_state \<times> listener option" where
  "ms_timeout_callback cl s =
     (case ms_scrollRef s of
        None \<Rightarrow> (s, None)
      | Some container \<Rightarrow>
          if \<not> truthy (tc_hasNextPage cl) then (s, None)
          else (case tc_onLoadMore cl of
                  None \<Rightarrow> (s, None)
                | Some f \<Rightarrow>
                    let l = \<lparr>cap_hasNextPage = tc_hasNextPage cl,
                             cap_isLoading = tc_isLoading cl, cap_onLoadMore = f\<rparr>
                    in (s\<lparr>node := container\<lparr>listeners := listeners container @ [l]\<rparr>\<rparr>,
                        Some l)))"

definition ms_effects :: "'o ms_state \<Rightarrow> 'o ms_state \<Rightarrow> 'o ms_state \<times> ('o, 'k) call list" where
  "ms_effects prev cur =
     (let s1 = useDebounce_effect (localSearch prev) (localSearch cur) cur;
          s2 = ms_effect_ref prev cur s1;
          s3 = ms_effect_reset_search prev cur s2;
          calls = ms_effect_notify_search prev cur;
          s4 = ms_effect_scroll prev cur s3
      in (s4, calls))"

text \<open>
  A commit: the DOM is brought up to date, the effects run, and when an effect has set
  state (\<open>setLocalSearch\<close>) the component renders again and the effects run against the
  render just committed.
\<close>

definition ms_commit :: "'o ms_state \<Rightarrow> 'o ms_state \<Rightarrow> 'o ms_state \<times> ('o, 'k) call list" where
  "ms_commit prev cur0 =
     (let cur = cur0\<lparr>node := mount_container (isPopoverOpen prev) (isPopoverOpen cur0) (node cur0)\<rparr>;
          (s1, c1) = ms_effects prev cur;
          (s2, c2) = ms_effects cur s1
      in (s2, c1 @ c2))"

definition ms_then_commit ::
  "'o ms_state \<Rightarrow> 'o ms_state \<times> ('o, 'k) call list \<Rightarrow> 'o ms_state \<times> ('o, 'k) call list" where
  "ms_then_commit prev r =
     (let (s1, c1) = r; (s2, c2) = ms_commit prev s1 in (s2, c1 @ c2))"

text \<open>
  The first render: the selection is \<open>defaultValue\<close>, the popover is closed, and every effect
  runs once.
\<close>

definition ms_initial :: "'o ms_props \<Rightarrow> 'o ms_state" where
  "ms_initial p =
     \<lparr>localSearch = '''', debouncedSearch = '''', debounce_timer = Some '''',
      isFetchingNextPageRef = isFetchingNextPage p,
      scroll_timer = Some \<lparr>tc_hasNextPage = hasNextPage p, tc_isLoading = isLoading p,
                            tc_onLoadMore = onLoadMore p\<rparr>,
      node = empty_node,
      props = p, selectedOptions = defaultValue p, isPopoverOpen = False\<rparr>"

definition ms_mount :: "'o ms_props \<Rightarrow> 'o ms_state \<times> ('o, 'k) call list" where
  "ms_mount p =
     (ms_initial p, if onSearchChange p \<noteq> None then [OnSearchChange ''''] else [])"

text \<open>Unmounting runs the cleanup of every effect: the two pending timers are cleared.\<close>

definition ms_unmount :: "'o ms_state \<Rightarrow> 'o ms_state" where
  "ms_unmount s = s\<lparr>debounce_timer := None, scroll_timer := None\<rparr>"

text \<open>The handler given to the popover as \<open>onOpenChange\<close>.\<close>

definition onOpenChange :: "'o ms_state \<Rightarrow> bool \<Rightarrow> 'o ms_state \<times> ('o, 'k) call list" where
  "onOpenChange s open =
     (s\<lparr>isPopoverOpen := open\<rparr>,
      if \<not> open \<and> onSearchChange (props s) \<noteq> None then [OnSearchChange ''''] else [])"

text \<open>
  What can happen to a mounted MultiSelect: the parent renders it with new props, a handler
  runs on a user interaction, a timer fires, or the list container receives a scroll or a
  wheel event (with the wheel's \<open>deltaY\<close>). The search input exists while the popover is open
  and \<open>onSearchChange\<close> is supplied. The trigger button's own \<open>onClick\<close> is composed by the
  popover primitive with the toggle that calls \<open>onOpenChange\<close>, so a click on the trigger is
  \<open>OpenChange\<close> too.
\<close>

datatype 'o ms_event =
    Rerender "'o ms_props"
  | OpenChange bool
  | ToggleOption 'o
  | HandleClear
  | ClearExtraOptions
  | ToggleAll
  | SearchInput string
  | DebounceFire
  | ScrollTimerFire
  | Scroll metrics
  | Wheel metrics int

fun ms_step :: "('o \<Rightarrow> 'k) \<Rightarrow> 'o ms_state \<Rightarrow> 'o ms_event \<Rightarrow> 'o ms_state \<times> ('o, 'k) call list" where
  "ms_step vk s (Rerender p) = ms_then_commit s (s\<lparr>props := p\<rparr>, [])"
| "ms_step vk s (OpenChange open) = ms_then_commit s (onOpenChange s open)"
| "ms_step vk s (ToggleOption opt) = ms_then_commit s (toggleOption vk s opt)"
| "ms_step vk s HandleClear = ms_then_commit s (handleClear vk s)"
| "ms_step vk s ClearExtraOptions = ms_then_commit s (clearExtraOptions vk s)"
| "ms_step vk s ToggleAll = ms_then_commit s (toggleAll vk s)"
| "ms_step vk s (SearchInput t) =
     (if isPopoverOpen s \<and> onSearchChange (props s) \<noteq> None
      then ms_then_commit s (s\<lparr>localSearch := t\<rparr>, [])
      else (s, []))"
| "ms_step vk s DebounceFire =
     (case debounce_timer s of
        None \<Rightarrow> (s, [])
      | Some v \<Rightarrow> ms_then_commit s (s\<lparr>debouncedSearch := v, debounce_timer := None\<rparr>, []))"
| "ms_step vk s ScrollTimerFire =
     (case scroll_timer s of
        None \<Rightarrow> (s, [])
      | Some cl \<Rightarrow> (fst (ms_timeout_callback cl (s\<lparr>scroll_timer := None\<rparr>)), []))"
| "ms_step vk s (Scroll m) =
     (if isPopoverOpen s
      then (let container = with_metrics (node s) m
            in (s\<lparr>node := container\<rparr>, dispatch_scroll (isFetchingNextPageRef s) container))
      else (s, []))"
| "ms_step vk s (Wheel m deltaY) =
     (if isPopoverOpen s
      then (let container = with_metrics (node s) m;
                (container', calls) =
                  dispatch_wheel ms_handleWheel (isFetchingNextPageRef s) deltaY
                    (listeners container) container
            in (s\<lparr>node := container'\<rparr>, calls))
      else (s, []))"

fun ms_run ::
  "('o \<Rightarrow> 'k) \<Rightarrow> 'o ms_state \<Rightarrow> 'o ms_event list \<Rightarrow> 'o ms_state \<times> ('o, 'k) call list" where
  "ms_run vk s [] = (s, [])"
| "ms_run vk s (e # es) =
     (let (s1, c1) = ms_step vk s e; (s2, c2) = ms_run vk s1 es in (s2, c1 @ c2))"

section \<open>SingleSelect\<close>

text \<open>
  The prop \<open>value\<close> is the selected value key, or null or undefined (\<open>None\<close>). The option
  labels are read as \<open>String(option[labelKey] ?? "")\<close> and the keys as
  \<open>String(option[valueKey] ?? "")\<close>: the two conversions to a string are the parameters
  \<open>labelStr :: 'o \<Rightarrow> string\<close> and \<open>keyStr :: 'k \<Rightarrow> string\<close>.
\<close>

record ('o, 'k) ss_props = "'o select_props" +
  selected_value :: "'k option"

record ('o, 'k) ss_state = hook_state +
  sprops :: "('o, 'k) ss_props"
  isOpen :: bool

subsection \<open>Local filtering\<close>

text \<open>
  Strings are lists of characters, and a character is a code unit below 256: a string of the
  model is a JavaScript string of Latin-1 characters. On these characters \<open>toLowerCase\<close> maps
  each of A to Z (65 to 90) and of the letters U+00C0 to U+00DE other than the multiplication
  sign U+00D7 (192 to 222 other than 215) to the character 32 above it and leaves every
  other character as it is, and \<open>trim\<close> removes tab, line feed, vertical tab, form feed,
  carriage return (9 to 13), space (32) and the no-break space U+00A0 (160) at both ends.
  Beyond Latin-1 the two functions of JavaScript do more (further white space, lowering that
  depends on the neighbouring letters), which the model does not cover.
  \<open>str_includes s t\<close> is \<open>s.includes(t)\<close>.
\<close>

definition lower_char :: "char \<Rightarrow> char" where
  "lower_char c =
     (if (65 \<le> (of_char c :: nat) \<and> (of_char c :: nat) \<le> 90)
         \<or> (192 \<le> (of_char c :: nat) \<and> (of_char c :: nat) \<le> 222 \<and> (of_char c :: nat) \<noteq> 215)
      then char_of (of_char c + 32 :: nat)
      else c)"

definition toLowerCase :: "string \<Rightarrow> string" where
  "toLowerCase s = map lower_char s"

definition is_space :: "char \<Rightarrow> bool" where
  "is_space c =
     ((of_char c :: nat) = 32 \<or> (9 \<le> (of_char c :: nat) \<and> (of_char c :: nat) \<le> 13)
      \<or> (of_char c :: nat) = 160)"

definition trim :: "string \<Rightarrow> string" where
  "trim s = rev (dropWhile is_space (rev (dropWhile is_space s)))"

fun str_includes :: "string \<Rightarrow> string \<Rightarrow> bool" where
  "str_includes [] t = (t = [])"
| "str_includes (c # s) t = (prefix t (c # s) \<or> str_includes s t)"

definition filteredOptions ::
  "('o \<Rightarrow> 'k) \<Rightarrow> ('o \<Rightarrow> string) \<Rightarrow> ('k \<Rightarrow> string) \<Rightarrow> ('o, 'k) ss_state \<Rightarrow> 'o list" where
  "filteredOptions vk labelStr keyStr s =
     (if onSearchChange (sprops s) \<noteq> None \<or> trim (debouncedSearch s) = []
      then options (sprops s)
      else filter
             (\<lambda>option.
                let label = labelStr option;
                    optionValue = keyStr (vk option);
                    term = trim (toLowerCase (debouncedSearch s))
                in str_includes (toLowerCase label) term \<or> str_includes (toLowerCase optionValue) term)
             (options (sprops s)))"




subsection \<open>Selecting an option\<close>

text \<open>The \<open>onSelect\<close> handler of the list item of \<open>option\<close>.\<close>

definition onSelect ::
  "('o \<Rightarrow> 'k) \<Rightarrow> ('o, 'k) ss_state \<Rightarrow> 'o \<Rightarrow> ('o, 'k) ss_state \<times> ('o, 'k) call list" where
  "onSelect vk s option =
     (let isSelected = (Some (vk option) = selected_value (sprops s))
      in (s\<lparr>isOpen := False\<rparr>,
          [OnValueChangeSingle (if isSelected then None else Some (vk option))]))"

subsection \<open>Effects and events\<close>

definition ss_scrollRef :: "('o, 'k) ss_state \<Rightarrow> dom_node option" where
  "ss_scrollRef s = (if isOpen s then Some (node s) else None)"

definition ss_effect_ref ::
  "('o, 'k) ss_state \<Rightarrow> ('o, 'k) ss_state \<Rightarrow> ('o, 'k) ss_state \<Rightarrow> ('o, 'k) ss_state" where
  "ss_effect_ref prev cur s =
     (if isFetchingNextPage (sprops cur) \<noteq> isFetchingNextPage (sprops prev)
      then s\<lparr>isFetchingNextPageRef := isFetchingNextPage (sprops cur)\<rparr>
      else s)"

definition ss_effect_notify_search ::
  "('o, 'k) ss_state \<Rightarrow> ('o, 'k) ss_state \<Rightarrow> ('o, 'k) call list" where
  "ss_effect_notify_search prev cur =
     (if debouncedSearch cur \<noteq> debouncedSearch prev
         \<or> onSearchChange (sprops cur) \<noteq> onSearchChange (sprops prev)
         \<or> isOpen cur \<noteq> isOpen prev
      then (if onSearchChange (sprops cur) \<noteq> None \<and> isOpen cur
            then [OnSearchChange (debouncedSearch cur)] else [])
      else [])"

definition ss_effect_reset_search ::
  "('o, 'k) ss_state \<Rightarrow> ('o, 'k) ss_state \<Rightarrow> ('o, 'k) ss_state \<Rightarrow> ('o, 'k) ss_state" where
  "ss_effect_reset_search prev cur s =
     (if isOpen cur \<noteq> isOpen prev
      then (if \<not> isOpen cur then s\<lparr>localSearch := ''''\<rparr> else s)
      else s)"

definition ss_closure :: "('o, 'k) ss_state \<Rightarrow> timeout_closure" where
  "ss_closure s =
     \<lparr>tc_hasNextPage = hasNextPage (sprops s), tc_isLoading = isLoading (sprops s),
      tc_onLoadMore = onLoadMore (sprops s)\<rparr>"

definition ss_effect_scroll ::
  "('o, 'k) ss_state \<Rightarrow> ('o, 'k) ss_state \<Rightarrow> ('o, 'k) ss_state \<Rightarrow> ('o, 'k) ss_state" where
  "ss_effect_scroll prev cur s =
     (if isOpen cur \<noteq> isOpen prev
         \<or> hasNextPage (sprops cur) \<noteq> hasNextPage (sprops prev)
         \<or> isFetchingNextPage (sprops cur) \<noteq> isFetchingNextPage (sprops prev)
         \<or> onLoadMore (sprops cur) \<noteq> onLoadMore (sprops prev)
         \<or> isLoading (sprops cur) \<noteq> isLoading (sprops prev)
      then s\<lparr>scroll_timer := Some (ss_closure cur)\<rparr>
      else s)"

definition ss_timeout_callback ::
  "timeout_closure \<Rightarrow> ('o, 'k) ss_state \<Rightarrow> ('o, 'k) ss_state \<times> listener option" where
  "ss_timeout_callback cl s =
     (case ss_scrollRef s of
        None \<Rightarrow> (s, None)
      | Some container \<Rightarrow>
          (case tc_onLoadMore cl of
             None \<Rightarrow> (s, None)
           | Some f \<Rightarrow>
               let l = \<lparr>cap_hasNextPage = tc_hasNextPage cl,
                        cap_isLoading = tc_isLoading cl, cap_onLoadMore = f\<rparr>
               in (s\<lparr>node := container\<lparr>listeners := listeners container @ [l]\<rparr>\<rparr>, Some l)))"

definition ss_effects ::
  "('o, 'k) ss_state \<Rightarrow> ('o, 'k) ss_state \<Rightarrow> ('o, 'k) ss_state \<times> ('o, 'k) call list" where
  "ss_effects prev cur =
     (let s1 = useDebounce_effect (localSearch prev) (localSearch cur) cur;
          s2 = ss_effect_ref prev cur s1;
          calls = ss_effect_notify_search prev cur;
          s3 = ss_effect_reset_search prev cur s2;
          s4 = ss_effect_scroll prev cur s3
      in (s4, calls))"

definition ss_commit ::
  "('o, 'k) ss_state \<Rightarrow> ('o, 'k) ss_state \<Rightarrow> ('o, 'k) ss_state \<times> ('o, 'k) call list" where
  "ss_commit prev cur0 =
     (let cur = cur0\<lparr>node := mount_container (isOpen prev) (isOpen cur0) (node cur0)\<rparr>;
          (s1, c1) = ss_effects prev cur;
          (s2, c2) = ss_effects cur s1
      in (s2, c1 @ c2))"

definition ss_then_commit ::
  "('o, 'k) ss_state \<Rightarrow> ('o, 'k) ss_state \<times> ('o, 'k) call list \<Rightarrow>
   ('o, 'k) ss_state \<times> ('o, 'k) call list" where
  "ss_then_commit prev r =
     (let (s1, c1) = r; (s2, c2) = ss_commit prev s1 in (s2, c1 @ c2))"

text \<open>
  The first render. The popover is closed, so the effect that notifies the caller of the
  search term does not call it.
\<close>

definition ss_initial :: "('o, 'k) ss_props \<Rightarrow> ('o, 'k) ss_state" where
  "ss_initial p =
     \<lparr>localSearch = '''', debouncedSearch = '''', debounce_timer = Some '''',
      isFetchingNextPageRef = isFetchingNextPage p,
      scroll_timer = Some \<lparr>tc_hasNextPage = hasNextPage p, tc_isLoading = isLoading p,
                            tc_onLoadMore = onLoadMore p\<rparr>,
      node = empty_node,
      sprops = p, isOpen = False\<rparr>"

definition ss_mount :: "('o, 'k) ss_props \<Rightarrow> ('o, 'k) ss_state \<times> ('o, 'k) call list" where
  "ss_mount p = (ss_initial p, [])"

definition ss_unmount :: "('o, 'k) ss_state \<Rightarrow> ('o, 'k) ss_state" where
  "ss_unmount s = s\<lparr>debounce_timer := None, scroll_timer := None\<rparr>"

text \<open>
  The events of a mounted SingleSelect. The popover's \<open>onOpenChange\<close> is \<open>setIsOpen\<close>; the
  search input and the list items exist while the popover is open, and the items are those
  of \<open>filteredOptions\<close>.
\<close>

datatype ('o, 'k) ss_event =
    SRerender "('o, 'k) ss_props"
  | SOpenChange bool
  | SSelect 'o
  | SSearchInput string
  | SDebounceFire
  | SScrollTimerFire
  | SScroll metrics
  | SWheel metrics int

fun ss_step ::
  "('o \<Rightarrow> 'k) \<Rightarrow> ('o \<Rightarrow> string) \<Rightarrow> ('k \<Rightarrow> string) \<Rightarrow> ('o, 'k) ss_state \<Rightarrow> ('o, 'k) ss_event \<Rightarrow>
   ('o, 'k) ss_state \<times> ('o, 'k) call list" where
  "ss_step vk labelStr keyStr s (SRerender p) = ss_then_commit s (s\<lparr>sprops := p\<rparr>, [])"
| "ss_step vk labelStr keyStr s (SOpenChange open) = ss_then_commit s (s\<lparr>isOpen := open\<rparr>, [])"
| "ss_step vk labelStr keyStr s (SSelect option) =
     (if isOpen s \<and> List.member (filteredOptions vk labelStr keyStr s) option
      then ss_then_commit s (onSelect vk s option)
      else (s, []))"
| "ss_step vk labelStr keyStr s (SSearchInput t) =
     (if isOpen s then ss_then_commit s (s\<lparr>localSearch := t\<rparr>, []) else (s, []))"
| "ss_step vk labelStr keyStr s SDebounceFire =
     (case debounce_timer s of
        None \<Rightarrow> (s, [])
      | Some v \<Rightarrow> ss_then_commit s (s\<lparr>debouncedSearch := v, debounce_timer := None\<rparr>, []))"
| "ss_step vk labelStr keyStr s SScrollTimerFire =
     (case scroll_timer s of
        None \<Rightarrow> (s, [])
      | Some cl \<Rightarrow> (fst (ss_timeout_callback cl (s\<lparr>scroll_timer := None\<rparr>)), []))"
| "ss_step vk labelStr keyStr s (SScroll m) =
     (if isOpen s
      then (let container = with_metrics (node s) m
            in (s\<lparr>node := container\<rparr>, dispatch_scroll (isFetchingNextPageRef s) container))
      else (s, []))"
| "ss_step vk labelStr keyStr s (SWheel m deltaY) =
     (if isOpen s
      then (let container = with_metrics (node s) m;
                (container', calls) =
                  dispatch_wheel ss_handleWheel (isFetchingNextPageRef s) deltaY
                    (listeners container) container
            in (s\<lparr>node := container'\<rparr>, calls))
      else (s, []))"

fun ss_run ::
  "('o \<Rightarrow> 'k) \<Rightarrow> ('o \<Rightarrow> string) \<Rightarrow> ('k \<Rightarrow> string) \<Rightarrow> ('o, 'k) ss_state \<Rightarrow> ('o, 'k) ss_event list \<Rightarrow>
   ('o, 'k) ss_state \<times> ('o, 'k) call list" where
  "ss_run vk labelStr keyStr s [] = (s, [])"
| "ss_run vk labelStr keyStr s (e # es) =
     (let (s1, c1) = ss_step vk labelStr keyStr s e;
          (s2, c2) = ss_run vk labelStr keyStr s1 es
      in (s2, c1 @ c2))"

text \<open>How often a callback invocation occurs in a trace.\<close>

definition times_called :: "('o, 'k) call \<Rightarrow> ('o, 'k) call list \<Rightarrow> nat" where
  "times_called c cs = length (filter (\<lambda>x. x = c) cs)"

text \<open>The invocations of the load-more callback in a trace.\<close>

fun load_more_calls :: "('o, 'k) call list \<Rightarrow> nat list" where
  "load_more_calls [] = []"
| "load_more_calls (OnLoadMore f # cs) = f # load_more_calls cs"
| "load_more_calls (c # cs) = load_more_calls cs"

section \<open>Concrete inputs\<close>

text \<open>Options are pairs of a numeric value key and a label; \<open>valueKey\<close> reads the first.\<close>

definition demo_props :: "(nat \<times> string) ms_props" where
  "demo_props =
     \<lparr>options = [(1, ''Apple''), (2, ''Banana''), (3, ''Cherry'')],
      onLoadMore = Some 7, hasNextPage = Some True, isFetchingNextPage = Some False,
      onSearchChange = Some 8, isLoading = None,
      defaultValue = [(2, ''Banana'')], maxCount = 3, setAlternativeValue = False\<rparr>"

definition demo_state :: "(nat \<times> string) ms_state" where
  "demo_state =
     ms_initial demo_props"

text \<open>
  A MultiSelect whose selection comes from another page of results than the one listed: as
  many options are selected as are listed, and none of them is listed.
\<close>

definition other_page_props :: "(nat \<times> string) ms_props" where
  "other_page_props =
     demo_props\<lparr>defaultValue := [(7, ''Grape''), (8, ''Lime''), (9, ''Mango'')]\<rparr>"

definition other_page_state :: "(nat \<times> string) ms_state" where
  "other_page_state =
     ms_initial other_page_props"

text \<open>A MultiSelect whose options list has two options with the value key 1.\<close>

definition duplicate_key_props :: "(nat \<times> string) ms_props" where
  "duplicate_key_props =
     demo_props\<lparr>options := [(1, ''Apple''), (1, ''Apricot'')], defaultValue := []\<rparr>"

definition duplicate_key_state :: "(nat \<times> string) ms_state" where
  "duplicate_key_state =
     ms_initial duplicate_key_props"

text \<open>
  The condition under which the selection keeps pairwise distinct value keys: every options
  list a render supplies has pairwise distinct value keys.
\<close>

fun distinct_options :: "('o \<Rightarrow> 'k) \<Rightarrow> 'o ms_event \<Rightarrow> bool" where
  "distinct_options vk (Rerender p) = distinct (map vk (options p))"
| "distinct_options vk e = True"

definition keys_distinct :: "('o \<Rightarrow> 'k) \<Rightarrow> 'o ms_state \<Rightarrow> bool" where
  "keys_distinct vk s \<longleftrightarrow>
     distinct (map vk (selectedOptions s)) \<and> distinct (map vk (options (props s)))"

definition demo_events :: "(nat \<times> string) ms_event list" where
  "demo_events =
     [ToggleOption (1, ''Apple''), ToggleAll, ClearExtraOptions, ToggleOption (3, ''Cherry''),
      Rerender demo_props, HandleClear, ToggleAll]"

text \<open>
  A SingleSelect without a search-change callback whose options have strings as value keys,
  after the user opened the popover and typed \<open>term\<close> and the debounce delay passed.
\<close>

definition fruit_props :: "(string \<times> string, string) ss_props" where
  "fruit_props =
     \<lparr>options = [(''k1'', ''Apple pie''), (''k2'', ''Grape''), (''cap'', ''Lime'')],
      onLoadMore = Some 7, hasNextPage = Some True, isFetchingNextPage = Some False,
      onSearchChange = None, isLoading = None,
      selected_value = Some ''k2''\<rparr>"

definition fruit_state :: "string \<Rightarrow> (string \<times> string, string) ss_state" where
  "fruit_state term =
     fst (ss_run fst snd id (ss_initial fruit_props)
            [SOpenChange True, SSearchInput term, SDebounceFire])"








text \<open>
  Both components with a search-change callback, after the user opened the popover and typed
  \<open>ab\<close> and the debounce delay passed.
\<close>

definition ms_searching :: "(nat \<times> string) ms_state" where
  "ms_searching =
     fst (ms_run fst (ms_initial demo_props) [OpenChange True, SearchInput ''ab'', DebounceFire])"

definition remote_props :: "(string \<times> string, string) ss_props" where
  "remote_props = fruit_props\<lparr>onSearchChange := Some 8\<rparr>"

definition ss_searching :: "(string \<times> string, string) ss_state" where
  "ss_searching =
     fst (ss_run fst snd id (ss_initial remote_props)
            [SOpenChange True, SSearchInput ''ab'', SDebounceFire])"

text \<open>
  The scroll metrics of a list 1000px high in a container of 300px, scrolled to 3px above
  the bottom.
\<close>

definition bottom3 :: metrics where
  "bottom3 = \<lparr>scrollTop = 697, scrollHeight = 1000, clientHeight = 300\<rparr>"












text \<open>
  Both components with the popover open and the listeners attached: the first render, the
  popover opened, the 10ms timeout fired.
\<close>

definition ms_attached :: "(nat \<times> string) ms_state" where
  "ms_attached = fst (ms_run fst (ms_initial demo_props) [OpenChange True, ScrollTimerFire])"

definition ss_attached :: "(string \<times> string, string) ss_state" where
  "ss_attached =
     fst (ss_run fst snd id (ss_initial fruit_props) [SOpenChange True, SScrollTimerFire])"

text \<open>The same after one page was fetched: the in-flight flag went up and down again.\<close>

definition ms_paged :: "(nat \<times> string) ms_state" where
  "ms_paged =
     fst (ms_run fst ms_attached
            [Rerender (demo_props\<lparr>isFetchingNextPage := Some True\<rparr>), ScrollTimerFire,
             Rerender demo_props, ScrollTimerFire])"

definition ss_paged :: "(string \<times> string, string) ss_state" where
  "ss_paged =
     fst (ss_run fst snd id ss_attached
            [SRerender (fruit_props\<lparr>isFetchingNextPage := Some True\<rparr>), SScrollTimerFire,
             SRerender fruit_props, SScrollTimerFire])"


text \<open>
  MultiSelect after the last page arrived: the listeners were attached while more pages
  were signalled, then the parent rendered \<open>hasNextPage = false\<close>.
\<close>

definition ms_last_page :: "(nat \<times> string) ms_state" where
  "ms_last_page =
     fst (ms_run fst ms_attached [Rerender (demo_props\<lparr>hasNextPage := Some False\<rparr>), ScrollTimerFire])"

section \<open>Unfolding a commit\<close>

lemmas ms_commit_defs =
  ms_then_commit_def ms_commit_def ms_effects_def ms_effect_ref_def ms_effect_reset_search_def
  ms_effect_notify_search_def ms_effect_scroll_def ms_closure_def useDebounce_effect_def
  mount_container_def

lemmas ss_commit_defs =
  ss_then_commit_def ss_commit_def ss_effects_def ss_effect_ref_def ss_effect_reset_search_def
  ss_effect_notify_search_def ss_effect_scroll_def ss_closure_def useDebounce_effect_def
  mount_container_def

section \<open>MultiSelect: sequences of toggles\<close>

lemma reported_append: "reported (xs @ ys) = reported xs @ reported ys"
  by (induction xs rule: reported.induct) simp_all

lemma reported_report: "reported (report vk s sel) = [map vk sel]"
  by (simp add: report_def)

lemma toggle_all_of_append:
  "toggle_all_of vk s (xs @ ys) =
     (let (s1, c1) = toggle_all_of vk s xs; (s2, c2) = toggle_all_of vk s1 ys in (s2, c1 @ c2))"
  by (induction xs arbitrary: s) (simp_all add: split_beta Let_def)

lemma toggleOption_selected:
  "selectedOptions (fst (toggleOption vk s opt)) =
     (if list_ex (\<lambda>o'. vk o' = vk opt) (selectedOptions s)
      then filter (\<lambda>o'. vk o' \<noteq> vk opt) (selectedOptions s)
      else selectedOptions s @ [opt])"
  by (simp add: toggleOption_def Let_def)

lemma toggleOption_reported:
  "reported (snd (toggleOption vk s opt)) = [map vk (selectedOptions (fst (toggleOption vk s opt)))]"
  by (simp add: toggleOption_def Let_def reported_report)

lemma toggle_all_of_snoc_selected:
  "selectedOptions (fst (toggle_all_of vk s (xs @ [opt]))) =
     selectedOptions (fst (toggleOption vk (fst (toggle_all_of vk s xs)) opt))"
  by (simp add: toggle_all_of_append split_beta Let_def)

lemma toggle_all_of_snoc_reported:
  "reported (snd (toggle_all_of vk s (xs @ [opt]))) =
     reported (snd (toggle_all_of vk s xs)) @
     [map vk (selectedOptions (fst (toggle_all_of vk s (xs @ [opt]))))]"
  by (simp add: toggle_all_of_append split_beta Let_def reported_append toggleOption_reported)

lemma count_key_snoc: "count_key vk k (xs @ [x]) = count_key vk k xs + (if vk x = k then 1 else 0)"
  by (simp add: count_key_def)

text \<open>A value key is selected exactly when it was toggled into the state it did not start in.\<close>

lemma key_selected_iff:
  "list_ex (\<lambda>x. vk x = k) (selectedOptions (fst (toggle_all_of vk s xs))) \<longleftrightarrow>
     (even (count_key vk k xs) = list_ex (\<lambda>d. vk d = k) (selectedOptions s))"
proof (induction xs rule: rev_induct)
  case Nil
  show ?case by (simp add: count_key_def)
next
  case (snoc x xs)
  show ?case
    using snoc.IH
    by (auto simp: toggle_all_of_snoc_selected toggleOption_selected count_key_snoc list_ex_iff)
qed

lemma on_and_not_off_snoc:
  "on_and_not_off vk dv earlier (xs @ [opt]) =
     filter (\<lambda>x. vk x \<noteq> vk opt) (on_and_not_off vk dv earlier xs) @
     (if toggles_on vk dv (earlier @ xs) opt then [opt] else [])"
proof (induction xs arbitrary: earlier)
  case Nil
  show ?case by (simp add: toggled_off_later_def)
next
  case (Cons x xs)
  show ?case
    using Cons.IH [of "earlier @ [x]"]
    by (auto simp: toggled_off_later_def list_ex_iff)
qed

lemma filter_absent_key:
  "\<not> list_ex (\<lambda>x. vk x = k) xs \<Longrightarrow> filter (\<lambda>x. vk x \<noteq> k) xs = xs"
  by (induction xs) auto

lemma untoggled_snoc:
  "filter (\<lambda>d. \<not> list_ex (\<lambda>x. vk x = vk d) (xs @ [opt])) dv =
     filter (\<lambda>d. vk d \<noteq> vk opt) (filter (\<lambda>d. \<not> list_ex (\<lambda>x. vk x = vk d) xs) dv)"
  by (induction dv) (auto simp: list_ex_iff)

lemma spec_selection_snoc:
  "spec_selection vk dv (xs @ [opt]) =
     filter (\<lambda>x. vk x \<noteq> vk opt) (spec_selection vk dv xs) @
     (if toggles_on vk dv xs opt then [opt] else [])"
  unfolding spec_selection_def on_and_not_off_snoc untoggled_snoc by simp

lemma toggle_all_of_spec:
  "selectedOptions (fst (toggle_all_of vk s xs)) = spec_selection vk (selectedOptions s) xs"
proof (induction xs rule: rev_induct)
  case Nil
  show ?case by (simp add: spec_selection_def list_ex_iff)
next
  case (snoc opt xs)
  let ?sel = "selectedOptions (fst (toggle_all_of vk s xs))"
  have on: "toggles_on vk (selectedOptions s) xs opt \<longleftrightarrow> \<not> list_ex (\<lambda>x. vk x = vk opt) ?sel"
    by (simp add: toggles_on_def key_selected_iff)
  show ?case
  proof (cases "list_ex (\<lambda>x. vk x = vk opt) ?sel")
    case True
    then show ?thesis
      using on snoc.IH
      by (simp add: toggle_all_of_snoc_selected toggleOption_selected spec_selection_snoc)
  next
    case False
    then have "filter (\<lambda>x. vk x \<noteq> vk opt) ?sel = ?sel"
      by (rule filter_absent_key)
    then show ?thesis
      using False on snoc.IH
      by (simp add: toggle_all_of_snoc_selected toggleOption_selected spec_selection_snoc)
  qed
qed

lemma toggle_all_of_reported:
  "reported (snd (toggle_all_of vk s xs)) =
     map (\<lambda>n. map vk (spec_selection vk (selectedOptions s) (take (Suc n) xs))) [0..<length xs]"
proof (induction xs rule: rev_induct)
  case Nil
  show ?case by simp
next
  case (snoc opt xs)
  show ?case
    using snoc.IH
    by (simp add: toggle_all_of_snoc_reported toggle_all_of_spec)
qed

text \<open>
  Claim C1. For every sequence of \<open>toggleOption\<close> calls, from any selection (from the default
  selection of the first render in particular), the key list handed to \<open>onValueChange\<close> by
  the n-th call is the selection the specification gives for the first n toggles, mapped to
  value keys: the options toggled on and not toggled off afterwards, in the order they were
  toggled on, after the options selected at the start that were never toggled. A single
  toggle appends the option when no selected option has its value key, removes every
  selected option with that value key otherwise, and reports the value keys of the new
  selection.
\<close>

theorem toggle_sequence_reports_spec_selection:
  "reported (snd (toggle_all_of vk s toggles)) =
     map (\<lambda>n. map vk (spec_selection vk (selectedOptions s) (take (Suc n) toggles)))
       [0..<length toggles]
   \<and> selectedOptions (fst (toggle_all_of vk s toggles)) =
       spec_selection vk (selectedOptions s) toggles
   \<and> selectedOptions (fst (toggle_all_of vk (ms_initial p) toggles)) =
       spec_selection vk (defaultValue p) toggles
   \<and> selectedOptions (fst (toggleOption vk s opt)) =
       (if list_ex (\<lambda>x. vk x = vk opt) (selectedOptions s)
        then filter (\<lambda>x. vk x \<noteq> vk opt) (selectedOptions s)
        else selectedOptions s @ [opt])
   \<and> reported (snd (toggleOption vk s opt)) =
        [map vk (selectedOptions (fst (toggleOption vk s opt)))]"
  by (simp add: toggle_all_of_reported toggle_all_of_spec toggleOption_selected
      toggleOption_reported ms_initial_def)

theorem toggle_sequence_witness:
  "reported (snd (toggle_all_of fst demo_state
      [(1, ''Apple''), (2, ''Banana''), (3, ''Cherry''), (1, ''Apple'')])) =
     [[2, 1], [1], [1, 3], [3]]
   \<and> selectedOptions (fst (toggle_all_of fst demo_state
      [(1, ''Apple''), (2, ''Banana''), (3, ''Cherry''), (1, ''Apple'')])) = [(3, ''Cherry'')]
   \<and> selectedOptions (fst (toggleOption fst demo_state (2, ''Banana''))) = []"
  using toggle_sequence_reports_spec_selection
    [of fst demo_state "[(1, ''Apple''), (2, ''Banana''), (3, ''Cherry''), (1, ''Apple'')]"
      demo_props "(2, ''Banana'')"]
  by (simp add: demo_state_def demo_props_def ms_initial_def spec_selection_def toggles_on_def
      toggled_off_later_def count_key_def upt_rec)

section \<open>MultiSelect: select all\<close>

lemma toggleAll_selected:
  "selectedOptions (fst (toggleAll vk s)) =
     (if length (selectedOptions s) = length (options (props s)) then [] else options (props s))"
  by (simp add: toggleAll_def handleClear_def)

lemma toggleAll_reported:
  "reported (snd (toggleAll vk s)) =
     [map vk (selectedOptions (fst (toggleAll vk s)))]"
  by (simp add: toggleAll_def handleClear_def reported_report)

text \<open>
  Claim C3, as the code has it. \<open>toggleAll\<close> compares the number of selected options with
  the number of options: when the two numbers differ, the selection becomes the full current
  option list and all its value keys are reported; when they are equal, the selection is
  cleared and an empty list is reported, whichever options are selected.
\<close>

theorem toggleAll_decides_by_count:
  "(length (selectedOptions s) \<noteq> length (options (props s)) \<longrightarrow>
      selectedOptions (fst (toggleAll vk s)) = options (props s)
      \<and> reported (snd (toggleAll vk s)) = [map vk (options (props s))])
   \<and> (length (selectedOptions s) = length (options (props s)) \<longrightarrow>
      selectedOptions (fst (toggleAll vk s)) = []
      \<and> reported (snd (toggleAll vk s)) = [[]])"
  by (simp add: toggleAll_selected toggleAll_reported)

theorem toggleAll_witness:
  "length (selectedOptions demo_state) = 1 \<and> length (options (props demo_state)) = 3
   \<and> selectedOptions (fst (toggleAll fst demo_state)) =
       [(1, ''Apple''), (2, ''Banana''), (3, ''Cherry'')]
   \<and> reported (snd (toggleAll fst demo_state)) = [[1, 2, 3]]
   \<and> selectedOptions (fst (toggleAll fst (fst (toggleAll fst demo_state)))) = []
   \<and> reported (snd (toggleAll fst (fst (toggleAll fst demo_state)))) = [[]]"
  using toggleAll_decides_by_count [of demo_state fst]
    toggleAll_decides_by_count [of "fst (toggleAll fst demo_state)" fst]
  by (simp add: demo_state_def demo_props_def ms_initial_def toggleAll_def)

text \<open>
  The claim as stated fails where as many options are selected as are listed and the
  selected ones are not the listed ones: the selection is not the full option list, and
  \<open>toggleAll\<close> clears it.
\<close>

theorem toggleAll_counterexample:
  "selectedOptions other_page_state = [(7, ''Grape''), (8, ''Lime''), (9, ''Mango'')]
   \<and> options (props other_page_state) = [(1, ''Apple''), (2, ''Banana''), (3, ''Cherry'')]
   \<and> selectedOptions (fst (toggleAll fst other_page_state)) = []
   \<and> snd (toggleAll fst other_page_state) = [OnValueChange []]"
  by (simp add: other_page_state_def other_page_props_def demo_props_def ms_initial_def
      toggleAll_def handleClear_def report_def)

section \<open>MultiSelect: what the effects and the timers leave alone\<close>

lemma ms_effects_frame:
  "selectedOptions (fst (ms_effects prev cur)) = selectedOptions cur"
  "props (fst (ms_effects prev cur)) = props cur"
  "isPopoverOpen (fst (ms_effects prev cur)) = isPopoverOpen cur"
  "debouncedSearch (fst (ms_effects prev cur)) = debouncedSearch cur"
  by (simp_all add: ms_effects_def ms_effect_scroll_def ms_effect_reset_search_def
      ms_effect_ref_def useDebounce_effect_def Let_def)

lemma ms_commit_frame:
  "selectedOptions (fst (ms_commit prev cur)) = selectedOptions cur"
  "props (fst (ms_commit prev cur)) = props cur"
  "isPopoverOpen (fst (ms_commit prev cur)) = isPopoverOpen cur"
  "debouncedSearch (fst (ms_commit prev cur)) = debouncedSearch cur"
  by (simp_all add: ms_commit_def Let_def split_beta ms_effects_frame)

lemma ms_then_commit_frame:
  "selectedOptions (fst (ms_then_commit prev r)) = selectedOptions (fst r)"
  "props (fst (ms_then_commit prev r)) = props (fst r)"
  "isPopoverOpen (fst (ms_then_commit prev r)) = isPopoverOpen (fst r)"
  "debouncedSearch (fst (ms_then_commit prev r)) = debouncedSearch (fst r)"
  by (simp_all add: ms_then_commit_def Let_def split_beta ms_commit_frame)

lemma ms_timeout_callback_frame:
  "selectedOptions (fst (ms_timeout_callback cl s)) = selectedOptions s"
  "props (fst (ms_timeout_callback cl s)) = props s"
  "isPopoverOpen (fst (ms_timeout_callback cl s)) = isPopoverOpen s"
  by (simp_all add: ms_timeout_callback_def Let_def split: option.splits)

lemma handler_props:
  "props (fst (toggleOption vk s opt)) = props s"
  "props (fst (handleClear vk s)) = props s"
  "props (fst (clearExtraOptions vk s)) = props s"
  "props (fst (toggleAll vk s)) = props s"
  "props (fst (onOpenChange s b)) = props s"
  by (simp_all add: toggleOption_def handleClear_def clearExtraOptions_def toggleAll_def
      onOpenChange_def Let_def)

section \<open>MultiSelect: value keys of the selection\<close>

lemma distinct_slice0: "distinct (map vk xs) \<Longrightarrow> distinct (map vk (slice0 xs e))"
  by (simp add: slice0_def take_map [symmetric] del: take_map)

lemma distinct_toggleOption:
  "distinct (map vk (selectedOptions s)) \<Longrightarrow>
   distinct (map vk (selectedOptions (fst (toggleOption vk s opt))))"
  by (auto simp: toggleOption_selected list_ex_iff distinct_map_filter)

lemma ms_step_keys_distinct:
  assumes "keys_distinct vk s" and "distinct_options vk e"
  shows "keys_distinct vk (fst (ms_step vk s e))"
proof (cases e)
  case (ToggleOption opt)
  then show ?thesis
    using assms distinct_toggleOption [of vk s opt]
    by (simp add: keys_distinct_def ms_then_commit_frame handler_props)
next
  case ClearExtraOptions
  then show ?thesis
    using assms distinct_slice0 [of vk "selectedOptions s" "maxCount (props s)"]
    by (simp add: keys_distinct_def ms_then_commit_frame handler_props clearExtraOptions_def Let_def)
next
  case ToggleAll
  then show ?thesis
    using assms
    by (simp add: keys_distinct_def ms_then_commit_frame handler_props toggleAll_selected)
next
  case (Wheel m dy)
  then show ?thesis
    using assms by (simp add: keys_distinct_def Let_def split_beta)
qed (use assms in \<open>simp_all add: keys_distinct_def ms_then_commit_frame handler_props
      ms_timeout_callback_frame handleClear_def onOpenChange_def Let_def split: option.splits\<close>)

lemma ms_run_keys_distinct:
  "keys_distinct vk s \<Longrightarrow> list_all (distinct_options vk) es \<Longrightarrow>
   keys_distinct vk (fst (ms_run vk s es))"
proof (induction es arbitrary: s)
  case Nil
  then show ?case by simp
next
  case (Cons e es)
  from Cons.prems have "keys_distinct vk (fst (ms_step vk s e))"
    by (simp add: ms_step_keys_distinct)
  moreover from Cons.prems have "list_all (distinct_options vk) es" by simp
  ultimately have "keys_distinct vk (fst (ms_run vk (fst (ms_step vk s e)) es))"
    by (rule Cons.IH)
  then show ?case by (simp add: split_beta Let_def)
qed

text \<open>
  Claim C9, with the condition the code needs. When the value keys of \<open>defaultValue\<close> are
  pairwise distinct and so are those of every options list the component is rendered with,
  the value keys of the selection are pairwise distinct in every state that a sequence of
  events reaches from the first render: \<open>toggleOption\<close>, \<open>toggleAll\<close>, \<open>handleClear\<close> and
  \<open>clearExtraOptions\<close>, and every other event of the component.
\<close>

theorem selection_keys_stay_distinct:
  assumes "distinct (map vk (defaultValue p))"
    and "distinct (map vk (options p))"
    and "list_all (distinct_options vk) es"
  shows "distinct (map vk (selectedOptions (fst (ms_run vk (ms_initial p) es))))"
proof -
  have "keys_distinct vk (ms_initial p)"
    using assms(1,2) by (simp add: keys_distinct_def ms_initial_def)
  then have "keys_distinct vk (fst (ms_run vk (ms_initial p) es))"
    using assms(3) by (rule ms_run_keys_distinct)
  then show ?thesis by (simp add: keys_distinct_def)
qed

theorem selection_keys_witness:
  "distinct (map fst (defaultValue demo_props))
   \<and> distinct (map fst (options demo_props))
   \<and> list_all (distinct_options fst) demo_events
   \<and> distinct (map fst (selectedOptions (fst (ms_run fst (ms_initial demo_props) demo_events))))"
proof -
  have h1: "distinct (map fst (defaultValue demo_props))"
    by (simp add: demo_props_def)
  have h2: "distinct (map fst (options demo_props))"
    by (simp add: demo_props_def)
  have h3: "list_all (distinct_options fst) demo_events"
    by (simp add: demo_events_def demo_props_def)
  show ?thesis
    using h1 h2 h3 selection_keys_stay_distinct [OF h1 h2 h3] by simp
qed

text \<open>
  The claim as stated fails for an options list with two options of one value key:
  \<open>toggleAll\<close> selects the whole list.
\<close>

theorem selection_keys_counterexample:
  "selectedOptions (fst (ms_run fst duplicate_key_state [ToggleAll])) =
     [(1, ''Apple''), (1, ''Apricot'')]
   \<and> \<not> distinct (map fst (selectedOptions (fst (ms_run fst duplicate_key_state [ToggleAll]))))"
  by (simp add: duplicate_key_state_def duplicate_key_props_def demo_props_def ms_initial_def
      ms_then_commit_frame toggleAll_selected)

section \<open>SingleSelect: what the effects leave alone\<close>

lemma ss_effects_frame:
  "sprops (fst (ss_effects prev cur)) = sprops cur"
  "isOpen (fst (ss_effects prev cur)) = isOpen cur"
  "debouncedSearch (fst (ss_effects prev cur)) = debouncedSearch cur"
  by (simp_all add: ss_effects_def ss_effect_scroll_def ss_effect_reset_search_def
      ss_effect_ref_def useDebounce_effect_def Let_def)

lemma ss_commit_frame:
  "sprops (fst (ss_commit prev cur)) = sprops cur"
  "isOpen (fst (ss_commit prev cur)) = isOpen cur"
  "debouncedSearch (fst (ss_commit prev cur)) = debouncedSearch cur"
  by (simp_all add: ss_commit_def Let_def split_beta ss_effects_frame)

lemma ss_then_commit_frame:
  "sprops (fst (ss_then_commit prev r)) = sprops (fst r)"
  "isOpen (fst (ss_then_commit prev r)) = isOpen (fst r)"
  "debouncedSearch (fst (ss_then_commit prev r)) = debouncedSearch (fst r)"
  by (simp_all add: ss_then_commit_def Let_def split_beta ss_commit_frame)

text \<open>While the popover is closed the effects of SingleSelect call nothing.\<close>

lemma ss_effects_closed_calls:
  "\<not> isOpen cur \<Longrightarrow> snd (ss_effects prev cur) = []"
  by (simp add: ss_effects_def ss_effect_notify_search_def Let_def)

lemma ss_commit_closed_calls:
  "\<not> isOpen cur \<Longrightarrow> snd (ss_commit prev cur) = []"
  by (simp add: ss_commit_def Let_def split_beta ss_effects_closed_calls ss_effects_frame)

lemma ss_then_commit_closed_calls:
  "\<not> isOpen (fst r) \<Longrightarrow> snd (ss_then_commit prev r) = snd r"
  by (simp add: ss_then_commit_def Let_def split_beta ss_commit_closed_calls)

section \<open>SingleSelect: selecting an option\<close>

lemma onSelect_closes: "\<not> isOpen (fst (onSelect vk s opt))"
  by (simp add: onSelect_def Let_def)

lemma onSelect_calls:
  "snd (onSelect vk s opt) =
     [OnValueChangeSingle (if selected_value (sprops s) = Some (vk opt) then None else Some (vk opt))]"
  by (auto simp: onSelect_def Let_def)

lemma fruit_state_facts:
  "isOpen (fruit_state '''')"
  "selected_value (sprops (fruit_state '''')) = Some ''k2''"
  "onSearchChange (sprops (fruit_state ''AP '')) = None"
  "onSearchChange (sprops (fruit_state ''pie'')) = None"
  "onSearchChange (sprops (fruit_state '' '')) = None"
  "debouncedSearch (fruit_state ''AP '') = ''AP ''"
  "debouncedSearch (fruit_state ''pie'') = ''pie''"
  "debouncedSearch (fruit_state '' '') = '' ''"
  by code_simp+

lemma fruit_state_listed:
  "List.member (filteredOptions fst snd id (fruit_state '''')) (''k1'', ''Apple pie'')"
  "List.member (filteredOptions fst snd id (fruit_state '''')) (''k2'', ''Grape'')"
  by code_simp+

text \<open>
  Claim C7. Selecting the option whose value key is the selected value reports null to
  \<open>onValueChange\<close>; selecting an option with another value key reports that key and closes the
  popover. The same holds for the whole event on an open popover that lists the option: the
  render that follows calls nothing more and leaves the popover closed.
\<close>

theorem onSelect_reports_key_or_null:
  "(selected_value (sprops s) = Some (vk opt) \<longrightarrow>
      snd (onSelect vk s opt) = [OnValueChangeSingle None])
   \<and> (selected_value (sprops s) \<noteq> Some (vk opt) \<longrightarrow>
      snd (onSelect vk s opt) = [OnValueChangeSingle (Some (vk opt))]
      \<and> \<not> isOpen (fst (onSelect vk s opt)))
   \<and> (isOpen s \<and> List.member (filteredOptions vk labelStr keyStr s) opt \<longrightarrow>
      snd (ss_step vk labelStr keyStr s (SSelect opt)) = snd (onSelect vk s opt)
      \<and> isOpen (fst (ss_step vk labelStr keyStr s (SSelect opt))) =
          isOpen (fst (onSelect vk s opt)))"
  by (simp add: onSelect_calls onSelect_closes ss_then_commit_closed_calls ss_then_commit_frame)

theorem onSelect_witness:
  "snd (onSelect fst (fruit_state '''') (''k2'', ''Grape'')) = [OnValueChangeSingle None]
   \<and> snd (onSelect fst (fruit_state '''') (''k1'', ''Apple pie'')) =
       [OnValueChangeSingle (Some ''k1'')]
   \<and> \<not> isOpen (fst (onSelect fst (fruit_state '''') (''k1'', ''Apple pie'')))
   \<and> snd (ss_step fst snd id (fruit_state '''') (SSelect (''k1'', ''Apple pie''))) =
       [OnValueChangeSingle (Some ''k1'')]
   \<and> \<not> isOpen (fst (ss_step fst snd id (fruit_state '''') (SSelect (''k1'', ''Apple pie''))))"
  using onSelect_reports_key_or_null [of "fruit_state ''''" fst "(''k2'', ''Grape'')" snd id]
    onSelect_reports_key_or_null [of "fruit_state ''''" fst "(''k1'', ''Apple pie'')" snd id]
    fruit_state_listed
  by (simp add: fruit_state_facts)

text \<open>
  Claim C10. Activating an option of the list closes the popover whatever the option is:
  \<open>onSelect\<close> calls \<open>setIsOpen(false)\<close> after it reported, also when the option is the selected
  one, for which null is reported.
\<close>

theorem select_always_closes:
  "\<not> isOpen (fst (onSelect vk s opt))
   \<and> (isOpen s \<and> List.member (filteredOptions vk labelStr keyStr s) opt \<longrightarrow>
        \<not> isOpen (fst (ss_step vk labelStr keyStr s (SSelect opt))))
   \<and> (isOpen s \<and> List.member (filteredOptions vk labelStr keyStr s) opt
        \<and> selected_value (sprops s) = Some (vk opt) \<longrightarrow>
        snd (ss_step vk labelStr keyStr s (SSelect opt)) = [OnValueChangeSingle None]
        \<and> \<not> isOpen (fst (ss_step vk labelStr keyStr s (SSelect opt))))"
  by (simp add: onSelect_calls onSelect_closes ss_then_commit_closed_calls ss_then_commit_frame)

theorem select_always_closes_witness:
  "isOpen (fruit_state '''')
   \<and> selected_value (sprops (fruit_state '''')) = Some (fst (''k2'', ''Grape''))
   \<and> snd (ss_step fst snd id (fruit_state '''') (SSelect (''k2'', ''Grape''))) =
       [OnValueChangeSingle None]
   \<and> \<not> isOpen (fst (ss_step fst snd id (fruit_state '''') (SSelect (''k2'', ''Grape''))))
   \<and> \<not> isOpen (fst (onSelect fst (fruit_state '''') (''k2'', ''Grape'')))"
  using select_always_closes [of fst "fruit_state ''''" "(''k2'', ''Grape'')" snd id]
    fruit_state_listed
  by (simp add: fruit_state_facts)

section \<open>SingleSelect: local filtering\<close>









lemma latin1_examples:
  "lower_char (CHR 0xC8) = CHR 0xE8"
  "lower_char (CHR 0xD7) = CHR 0xD7"
  "lower_char CHR ''Q'' = CHR ''q''"
  "trim ([CHR 0xA0] @ ''a b'' @ [CHR 0xA0, CHR 0x09]) = ''a b''"
  by code_simp+




section \<open>Closing the popover\<close>

lemma ms_close_resets_search:
  "isPopoverOpen s \<Longrightarrow> localSearch (fst (ms_step vk s (OpenChange False))) = ''''"
  by (simp add: ms_commit_defs onOpenChange_def Let_def)

lemma ms_close_calls:
  "isPopoverOpen s \<Longrightarrow>
   snd (ms_step vk s (OpenChange False)) =
     (if onSearchChange (props s) \<noteq> None then [OnSearchChange ''''] else [])"
  by (simp add: ms_commit_defs onOpenChange_def Let_def)

text \<open>
  In MultiSelect the effect on the debounced term notifies the caller once more when the
  debounce timer publishes the emptied search text after the close.
\<close>

lemma ms_close_then_debounce_calls:
  "isPopoverOpen s \<Longrightarrow> localSearch s \<noteq> '''' \<Longrightarrow> debouncedSearch s \<noteq> '''' \<Longrightarrow>
   onSearchChange (props s) \<noteq> None \<Longrightarrow>
   snd (ms_step vk (fst (ms_step vk s (OpenChange False))) DebounceFire) = [OnSearchChange '''']"
  by (simp add: ms_commit_defs onOpenChange_def Let_def)

lemma ss_close_resets_search:
  "isOpen s \<Longrightarrow> localSearch (fst (ss_step vk labelStr keyStr s (SOpenChange False))) = ''''"
  by (simp add: ss_commit_defs Let_def)

lemma ss_close_calls:
  "snd (ss_step vk labelStr keyStr s (SOpenChange False)) = []"
  by (simp add: ss_then_commit_closed_calls)

lemma ss_closed_debounce_calls:
  "\<not> isOpen s \<Longrightarrow> snd (ss_step vk labelStr keyStr s SDebounceFire) = []"
  by (simp add: ss_then_commit_closed_calls split: option.splits)

lemma searching_facts:
  "isPopoverOpen ms_searching"
  "localSearch ms_searching = ''ab''"
  "debouncedSearch ms_searching = ''ab''"
  "onSearchChange (props ms_searching) = Some 8"
  "isOpen ss_searching"
  "localSearch ss_searching = ''ab''"
  "debouncedSearch ss_searching = ''ab''"
  "onSearchChange (sprops ss_searching) = Some 8"
  by code_simp+

text \<open>
  Claim C4, as the code has it. Closing the popover resets the internal search text to the
  empty string in both components. In MultiSelect the \<open>onOpenChange\<close> handler calls a supplied
  search-change callback with the empty string, once, at the close; when the search text
  and the debounced term were not empty, the effect on the debounced term calls it with the
  empty string once more when the debounce timer fires. In SingleSelect the close calls
  nothing, and neither does the debounce timer that fires after it: the effect that notifies
  the caller is gated on the popover being open.
\<close>

theorem close_resets_search_and_notifies:
  "(isPopoverOpen s \<longrightarrow>
      localSearch (fst (ms_step vk s (OpenChange False))) = ''''
      \<and> (onSearchChange (props s) \<noteq> None \<longrightarrow>
           snd (ms_step vk s (OpenChange False)) = [OnSearchChange ''''])
      \<and> (onSearchChange (props s) = None \<longrightarrow> snd (ms_step vk s (OpenChange False)) = [])
      \<and> (localSearch s \<noteq> '''' \<and> debouncedSearch s \<noteq> '''' \<and> onSearchChange (props s) \<noteq> None \<longrightarrow>
           snd (ms_step vk (fst (ms_step vk s (OpenChange False))) DebounceFire) =
             [OnSearchChange '''']))
   \<and> (isOpen t \<longrightarrow>
      localSearch (fst (ss_step vk' labelStr keyStr t (SOpenChange False))) = ''''
      \<and> snd (ss_step vk' labelStr keyStr t (SOpenChange False)) = []
      \<and> snd (ss_step vk' labelStr keyStr (fst (ss_step vk' labelStr keyStr t (SOpenChange False)))
             SDebounceFire) = [])"
proof -
  have closed: "\<not> isOpen (fst (ss_step vk' labelStr keyStr t (SOpenChange False)))"
    by (simp add: ss_then_commit_frame)
  show ?thesis
    using ss_closed_debounce_calls [OF closed] ms_close_then_debounce_calls [of s vk]
    by (simp add: ms_close_resets_search ms_close_calls ss_close_resets_search ss_close_calls
        del: ms_step.simps ss_step.simps)
qed

theorem close_witness:
  "isPopoverOpen ms_searching \<and> localSearch ms_searching = ''ab''
   \<and> localSearch (fst (ms_step fst ms_searching (OpenChange False))) = ''''
   \<and> snd (ms_step fst ms_searching (OpenChange False)) = [OnSearchChange '''']
   \<and> snd (ms_step fst (fst (ms_step fst ms_searching (OpenChange False))) DebounceFire) =
       [OnSearchChange '''']
   \<and> isOpen ss_searching \<and> localSearch ss_searching = ''ab''
   \<and> localSearch (fst (ss_step fst snd id ss_searching (SOpenChange False))) = ''''
   \<and> snd (ss_step fst snd id ss_searching (SOpenChange False)) = []"
  using close_resets_search_and_notifies [of ms_searching fst ss_searching fst snd id]
  by (simp add: searching_facts del: ms_step.simps ss_step.simps)

text \<open>
  The claim as stated fails in both components. With a search-change callback supplied and
  the search text \<open>ab\<close>, the close of SingleSelect and the debounce timer after it call the
  callback zero times; the close of MultiSelect and the debounce timer after it call it with
  the empty string twice.
\<close>

theorem close_counterexample:
  "onSearchChange (sprops ss_searching) = Some 8
   \<and> localSearch ss_searching = ''ab''
   \<and> times_called (OnSearchChange '''')
       (snd (ss_run fst snd id ss_searching [SOpenChange False, SDebounceFire])) = 0
   \<and> onSearchChange (props ms_searching) = Some 8
   \<and> localSearch ms_searching = ''ab''
   \<and> times_called (OnSearchChange '''')
       (snd (ms_run fst ms_searching [OpenChange False, DebounceFire])) = 2"
  by code_simp

section \<open>Load-more: when the callback is invoked\<close>






























section \<open>A change of the in-flight flag\<close>

lemma ms_fetching_flag_rerender:
  assumes "b \<noteq> isFetchingNextPage (props s)"
  shows "isFetchingNextPageRef (fst (ms_step vk s (Rerender ((props s)\<lparr>isFetchingNextPage := b\<rparr>)))) = b"
    and "scroll_timer (fst (ms_step vk s (Rerender ((props s)\<lparr>isFetchingNextPage := b\<rparr>)))) =
           Some \<lparr>tc_hasNextPage = hasNextPage (props s), tc_isLoading = isLoading (props s),
                 tc_onLoadMore = onLoadMore (props s)\<rparr>"
    and "node (fst (ms_step vk s (Rerender ((props s)\<lparr>isFetchingNextPage := b\<rparr>)))) = node s"
    and "snd (ms_step vk s (Rerender ((props s)\<lparr>isFetchingNextPage := b\<rparr>))) = []"
  using assms by (simp_all add: ms_commit_defs Let_def)

lemma ss_fetching_flag_rerender:
  assumes "b \<noteq> isFetchingNextPage (sprops s)"
  shows "isFetchingNextPageRef
           (fst (ss_step vk labelStr keyStr s (SRerender ((sprops s)\<lparr>isFetchingNextPage := b\<rparr>)))) = b"
    and "scroll_timer
           (fst (ss_step vk labelStr keyStr s (SRerender ((sprops s)\<lparr>isFetchingNextPage := b\<rparr>)))) =
           Some \<lparr>tc_hasNextPage = hasNextPage (sprops s), tc_isLoading = isLoading (sprops s),
                 tc_onLoadMore = onLoadMore (sprops s)\<rparr>"
    and "node (fst (ss_step vk labelStr keyStr s (SRerender ((sprops s)\<lparr>isFetchingNextPage := b\<rparr>)))) =
           node s"
    and "snd (ss_step vk labelStr keyStr s (SRerender ((sprops s)\<lparr>isFetchingNextPage := b\<rparr>))) = []"
  using assms by (simp_all add: ss_commit_defs Let_def)

lemma attached_facts:
  "props ms_attached = demo_props"
  "isFetchingNextPage (props ms_attached) = Some False"
  "scroll_timer ms_attached = None"
  "sprops ss_attached = fruit_props"
  "isFetchingNextPage (sprops ss_attached) = Some False"
  "scroll_timer ss_attached = None"
  by code_simp+

text \<open>
  Claim C6, as the code has it. In both components \<open>isFetchingNextPage\<close> is in the dependency
  list of the listener-setup effect. A render in which only this prop changed updates the
  ref that the scroll handler reads, and it runs the effect again: the pending timeout is
  replaced by a new one, which holds the values of the new render. The render itself calls
  nothing and leaves the container and its listeners as they are.
\<close>

theorem fetching_flag_change_reruns_listener_effect:
  "(b \<noteq> isFetchingNextPage (props s) \<longrightarrow>
      isFetchingNextPageRef (fst (ms_step vk s (Rerender ((props s)\<lparr>isFetchingNextPage := b\<rparr>)))) = b
      \<and> scroll_timer (fst (ms_step vk s (Rerender ((props s)\<lparr>isFetchingNextPage := b\<rparr>)))) =
          Some \<lparr>tc_hasNextPage = hasNextPage (props s), tc_isLoading = isLoading (props s),
                tc_onLoadMore = onLoadMore (props s)\<rparr>
      \<and> node (fst (ms_step vk s (Rerender ((props s)\<lparr>isFetchingNextPage := b\<rparr>)))) = node s
      \<and> snd (ms_step vk s (Rerender ((props s)\<lparr>isFetchingNextPage := b\<rparr>))) = [])
   \<and> (b' \<noteq> isFetchingNextPage (sprops t) \<longrightarrow>
      isFetchingNextPageRef
        (fst (ss_step vk' labelStr keyStr t (SRerender ((sprops t)\<lparr>isFetchingNextPage := b'\<rparr>)))) = b'
      \<and> scroll_timer
          (fst (ss_step vk' labelStr keyStr t (SRerender ((sprops t)\<lparr>isFetchingNextPage := b'\<rparr>)))) =
          Some \<lparr>tc_hasNextPage = hasNextPage (sprops t), tc_isLoading = isLoading (sprops t),
                tc_onLoadMore = onLoadMore (sprops t)\<rparr>
      \<and> node (fst (ss_step vk' labelStr keyStr t (SRerender ((sprops t)\<lparr>isFetchingNextPage := b'\<rparr>)))) =
          node t
      \<and> snd (ss_step vk' labelStr keyStr t (SRerender ((sprops t)\<lparr>isFetchingNextPage := b'\<rparr>))) = [])"
  using ms_fetching_flag_rerender [of b s vk] ss_fetching_flag_rerender [of b' t vk' labelStr keyStr]
  by blast

theorem fetching_flag_witness:
  "isFetchingNextPage (props ms_attached) = Some False
   \<and> isFetchingNextPageRef
       (fst (ms_step fst ms_attached
              (Rerender ((props ms_attached)\<lparr>isFetchingNextPage := Some True\<rparr>)))) = Some True
   \<and> scroll_timer
       (fst (ms_step fst ms_attached
              (Rerender ((props ms_attached)\<lparr>isFetchingNextPage := Some True\<rparr>)))) =
       Some \<lparr>tc_hasNextPage = Some True, tc_isLoading = None, tc_onLoadMore = Some 7\<rparr>
   \<and> isFetchingNextPage (sprops ss_attached) = Some False
   \<and> isFetchingNextPageRef
       (fst (ss_step fst snd id ss_attached
              (SRerender ((sprops ss_attached)\<lparr>isFetchingNextPage := Some True\<rparr>)))) = Some True
   \<and> scroll_timer
       (fst (ss_step fst snd id ss_attached
              (SRerender ((sprops ss_attached)\<lparr>isFetchingNextPage := Some True\<rparr>)))) =
       Some \<lparr>tc_hasNextPage = Some True, tc_isLoading = None, tc_onLoadMore = Some 7\<rparr>"
proof -
  have v: "hasNextPage demo_props = Some True" "isLoading demo_props = None"
    "onLoadMore demo_props = Some 7" "hasNextPage fruit_props = Some True"
    "isLoading fruit_props = None" "onLoadMore fruit_props = Some 7"
    "isFetchingNextPage demo_props = Some False" "isFetchingNextPage fruit_props = Some False"
    by (simp_all add: demo_props_def fruit_props_def)
  show ?thesis
    using fetching_flag_change_reruns_listener_effect
      [of "Some True" ms_attached fst "Some True" ss_attached fst snd id]
    by (simp add: attached_facts v del: ms_step.simps ss_step.simps)
qed

text \<open>
  The claim as stated fails: with the listeners attached and no timeout pending, a render
  that changes \<open>isFetchingNextPage\<close> alone schedules the timeout again, and when it fires the
  container has a second pair of listeners.
\<close>

theorem fetching_flag_counterexample:
  "scroll_timer ms_attached = None
   \<and> length (listeners (node ms_attached)) = 1
   \<and> scroll_timer
       (fst (ms_step fst ms_attached
              (Rerender ((props ms_attached)\<lparr>isFetchingNextPage := Some True\<rparr>)))) =
       Some \<lparr>tc_hasNextPage = Some True, tc_isLoading = None, tc_onLoadMore = Some 7\<rparr>
   \<and> length (listeners (node (fst (ms_run fst ms_attached
       [Rerender ((props ms_attached)\<lparr>isFetchingNextPage := Some True\<rparr>), ScrollTimerFire])))) = 2
   \<and> scroll_timer ss_attached = None
   \<and> length (listeners (node ss_attached)) = 1
   \<and> scroll_timer
       (fst (ss_step fst snd id ss_attached
              (SRerender ((sprops ss_attached)\<lparr>isFetchingNextPage := Some True\<rparr>)))) =
       Some \<lparr>tc_hasNextPage = Some True, tc_isLoading = None, tc_onLoadMore = Some 7\<rparr>
   \<and> length (listeners (node (fst (ss_run fst snd id ss_attached
       [SRerender ((sprops ss_attached)\<lparr>isFetchingNextPage := Some True\<rparr>), SScrollTimerFire])))) = 2"
  by code_simp

section \<open>The listeners on the list container\<close>

lemma dispatch_wheel_listeners:
  assumes "\<And>l c. listeners (fst (hw l ref c dy)) = listeners c"
  shows "listeners (fst (dispatch_wheel hw ref dy ls c)) = listeners c"
  by (induction ls arbitrary: c) (simp_all add: split_beta Let_def assms)

lemma handleWheel_listeners:
  "listeners (fst (ms_handleWheel l ref c dy :: dom_node \<times> ('o, 'k) call list)) = listeners c"
  "listeners (fst (ss_handleWheel l ref c dy :: dom_node \<times> ('o, 'k) call list)) = listeners c"
  by (simp_all add: ms_handleWheel_def ss_handleWheel_def set_scrollTop_def Let_def)

lemma ms_commit_listeners:
  "isPopoverOpen prev \<Longrightarrow> listeners (node (fst (ms_then_commit prev r))) = listeners (node (fst r))"
  by (simp add: ms_commit_defs Let_def split_beta)

lemma ss_commit_listeners:
  "isOpen prev \<Longrightarrow> listeners (node (fst (ss_then_commit prev r))) = listeners (node (fst r))"
  by (simp add: ss_commit_defs Let_def split_beta)

text \<open>
  From an open popover no event removes a listener from the container: the listeners after
  the event are those before it, followed by whatever the event added. Closing the popover
  is such an event.
\<close>

lemma ms_step_keeps_listeners:
  assumes "isPopoverOpen s"
  shows "prefix (listeners (node s)) (listeners (node (fst (ms_step vk s e))))"
proof (cases e)
  case (Wheel m dy)
  then show ?thesis
    using assms
    by (simp add: Let_def split_beta with_metrics_def dispatch_wheel_listeners handleWheel_listeners)
next
  case ScrollTimerFire
  then show ?thesis
    using assms
    by (simp add: ms_timeout_callback_def ms_scrollRef_def Let_def split: option.splits)
qed (use assms in \<open>simp_all add: ms_commit_listeners toggleOption_def handleClear_def
      clearExtraOptions_def toggleAll_def onOpenChange_def with_metrics_def Let_def
      split: option.splits\<close>)

lemma ss_step_keeps_listeners:
  assumes "isOpen s"
  shows "prefix (listeners (node s)) (listeners (node (fst (ss_step vk labelStr keyStr s e))))"
proof (cases e)
  case (SWheel m dy)
  then show ?thesis
    using assms
    by (simp add: Let_def split_beta with_metrics_def dispatch_wheel_listeners handleWheel_listeners)
next
  case SScrollTimerFire
  then show ?thesis
    using assms
    by (simp add: ss_timeout_callback_def ss_scrollRef_def Let_def split: option.splits)
qed (use assms in \<open>simp_all add: ss_commit_listeners onSelect_def with_metrics_def Let_def
      split: option.splits\<close>)

text \<open>
  Claim C5, evaluated. The function that removes the listeners is what the timeout callback
  returns, and a timer does nothing with the value its callback returns; the cleanup of the
  effect clears the timeout only. After one page was fetched the container of either
  component carries three pairs of listeners, a scroll event 3px above the bottom invokes
  the load-more callback three times, and the three pairs are on the container after the
  popover was closed and after the component was unmounted. In MultiSelect the pair attached
  while more pages were signalled still invokes the callback after \<open>hasNextPage\<close> became
  false.
\<close>

theorem listeners_are_never_removed:
  "map cap_onLoadMore (listeners (node ms_paged)) = [7, 7, 7]
   \<and> load_more_calls (snd (ms_step fst ms_paged (Scroll bottom3))) = [7, 7, 7]
   \<and> listeners (node (fst (ms_step fst ms_paged (OpenChange False)))) = listeners (node ms_paged)
   \<and> listeners (node (ms_unmount ms_paged)) = listeners (node ms_paged)
   \<and> map cap_onLoadMore (listeners (node ss_paged)) = [7, 7, 7]
   \<and> load_more_calls (snd (ss_step fst snd id ss_paged (SScroll bottom3))) = [7, 7, 7]
   \<and> listeners (node (fst (ss_step fst snd id ss_paged (SOpenChange False)))) =
       listeners (node ss_paged)
   \<and> listeners (node (ss_unmount ss_paged)) = listeners (node ss_paged)
   \<and> hasNextPage (props ms_last_page) = Some False
   \<and> load_more_calls (snd (ms_step fst ms_last_page (Scroll bottom3))) = [7]"
  by code_simp

text \<open>
  Had the function returned by the timeout callback been run, the container would have lost
  the pair the callback added.
\<close>

lemma returned_cleanup_would_remove:
  "ms_timeout_callback cl s = (s', Some l) \<Longrightarrow>
   length (listeners (removeEventListeners l (node s'))) = length (listeners (node s))"
  by (auto simp: ms_timeout_callback_def ms_scrollRef_def removeEventListeners_def Let_def
      length_remove1 split: option.splits if_splits)

end
